theory Spec2Isabelle
  imports Complex_Main "HOL-Library.Sublist" "HOL-Library.Word"
begin

unbundle bit_operations_syntax

section \<open>JavaScript strings\<close>

text \<open>
  A string is a list of characters; a character stands for a code unit below 256.
  \<open>is_ws\<close> is the white space and line terminator set that
  \<^verbatim>\<open>String.prototype.trim\<close> and the string-to-number conversion strip, restricted to
  that range: TAB, LF, VT, FF, CR, SPACE and NBSP.
\<close>

definition is_ws :: "char \<Rightarrow> bool" where
  "is_ws c = (c \<in> set [CHR 0x09, CHR 0x0A, CHR 0x0B, CHR 0x0C, CHR 0x0D, CHR '' '', CHR 0xA0])"

definition trim :: "string \<Rightarrow> string" where
  "trim s = rev (dropWhile is_ws (rev (dropWhile is_ws s)))"

text \<open>
  \<^verbatim>\<open>s.split(c)\<close> for a one-character separator: the pieces between the separators, in
  order; the empty string gives one empty piece.
\<close>

fun split_on :: "char \<Rightarrow> string \<Rightarrow> string list" where
  "split_on c [] = [[]]"
| "split_on c (x # xs) =
     (if x = c then [] # split_on c xs
      else (case split_on c xs of [] \<Rightarrow> [[x]] | t # ts \<Rightarrow> (x # t) # ts))"

text \<open>\<^verbatim>\<open>a.join(c)\<close>, the inverse used to characterise \<open>split_on\<close>.\<close>

fun join_with :: "char \<Rightarrow> string list \<Rightarrow> string" where
  "join_with c [] = []"
| "join_with c [t] = t"
| "join_with c (t # u # ts) = t @ c # join_with c (u # ts)"

text \<open>\<^verbatim>\<open>s.includes(p)\<close>: \<open>p\<close> occurs in \<open>s\<close>.\<close>

fun includes_str :: "string \<Rightarrow> string \<Rightarrow> bool" where
  "includes_str [] p = (p = [])"
| "includes_str (x # xs) p = (prefix p (x # xs) \<or> includes_str xs p)"

definition is_digit :: "char \<Rightarrow> bool" where
  "is_digit c = (c \<in> set ''0123456789'')"

definition CRLF :: string where
  "CRLF = [CHR 0x0D, CHR 0x0A]"

section \<open>models/TelemetryData\<close>

text \<open>
  A Flight State Snapshot maps a header name to the value text of its column. A listener
  is a JavaScript function: what a caller observes of it is that it was called with a
  payload and whether the call threw.
\<close>

type_synonym snapshot = "string \<rightharpoonup> string"

record listener =
  lid :: nat
  throws :: "snapshot \<Rightarrow> bool"

type_synonym delivery = "nat \<times> string \<times> snapshot"

datatype js_error = TypeError | ReferenceError | UnhandledError | Thrown nat | InvalidIp

text \<open>
  The object built by the \<^verbatim>\<open>TelemetryData\<close> constructor. \<open>events\<close> is the listener
  registry it inherits from \<^verbatim>\<open>EventEmitter\<close>, in registration order.
\<close>

record telemetry =
  headers :: "string list"
  received :: "(nat \<times> string) list"
  current_state :: snapshot
  state_history :: "snapshot list"
  sent :: "(nat \<times> string) list"
  events :: "(string \<times> listener) list"

definition new_TelemetryData :: telemetry where
  "new_TelemetryData =
     \<lparr>headers = [], received = [], current_state = Map.empty, state_history = [],
      sent = [], events = []\<rparr>"

definition setHeadersFromString :: "string \<Rightarrow> telemetry \<Rightarrow> telemetry" where
  "setHeadersFromString headers_string self =
     self\<lparr>headers := map (\<lambda>str. trim str) (split_on CHR '','' headers_string)\<rparr>"

subsection \<open>EventEmitter and underscore\<close>

text \<open>
  \<^verbatim>\<open>emitter.on(name, l)\<close> appends a listener. \<^verbatim>\<open>emitter.emit(name, payload)\<close> calls the
  listeners registered for \<open>name\<close> synchronously, in registration order; an exception
  thrown by a listener leaves \<^verbatim>\<open>emit\<close> at once. An \<^verbatim>\<open>error\<close> event without a listener
  throws. The delivery list records every call of a listener.
\<close>

definition on :: "string \<Rightarrow> listener \<Rightarrow> telemetry \<Rightarrow> telemetry" where
  "on name l self = self\<lparr>events := events self @ [(name, l)]\<rparr>"

definition listeners_of :: "telemetry \<Rightarrow> string \<Rightarrow> listener list" where
  "listeners_of self name = map snd (filter (\<lambda>r. fst r = name) (events self))"

fun call_listeners ::
  "listener list \<Rightarrow> string \<Rightarrow> snapshot \<Rightarrow> delivery list \<Rightarrow> js_error option \<times> delivery list"
where
  "call_listeners [] name payload dl = (None, dl)"
| "call_listeners (l # ls) name payload dl =
     (if throws l payload then (Some (Thrown (lid l)), dl @ [(lid l, name, payload)])
      else call_listeners ls name payload (dl @ [(lid l, name, payload)]))"

definition emit ::
  "telemetry \<Rightarrow> string \<Rightarrow> snapshot \<Rightarrow> delivery list \<Rightarrow> js_error option \<times> delivery list"
where
  "emit self name payload dl =
     (if name = ''error'' \<and> listeners_of self name = [] then (Some UnhandledError, dl)
      else call_listeners (listeners_of self name) name payload dl)"

text \<open>
  The receiver \<^verbatim>\<open>this\<close> of a function call. A plain call \<^verbatim>\<open>f(a, b)\<close> has the default
  receiver (the global object, or \<^verbatim>\<open>undefined\<close> in strict code), which has no
  \<^verbatim>\<open>emit\<close> method: \<^verbatim>\<open>this.emit(...)\<close> is a TypeError there.
\<close>

datatype receiver = DefaultThis | ObjectThis telemetry

text \<open>
  The callback of \<^verbatim>\<open>emitPackets\<close>:
  \<^verbatim>\<open>function (packet_data, packet_name) { this.emit(packet_name, packet_data); }\<close>
\<close>

fun packet_callback ::
  "receiver \<Rightarrow> snapshot \<Rightarrow> string \<Rightarrow> delivery list \<Rightarrow> js_error option \<times> delivery list"
where
  "packet_callback DefaultThis packet_data packet_name dl = (Some TypeError, dl)"
| "packet_callback (ObjectThis self) packet_data packet_name dl =
     emit self packet_name packet_data dl"

text \<open>
  \<^verbatim>\<open>_.each(obj, iteratee, context)\<close> on an object: the iteratee is called with each value
  and key in the object's iteration order, with \<^verbatim>\<open>this\<close> bound to \<open>context\<close> when one
  is given and by a plain call otherwise. \<^verbatim>\<open>undefined\<close> (here \<open>None\<close>) has no keys.
  An exception of the iteratee ends the iteration.
\<close>

definition this_of :: "receiver option \<Rightarrow> receiver" where
  "this_of context = (case context of None \<Rightarrow> DefaultThis | Some c \<Rightarrow> c)"

fun each_keys ::
  "(string \<times> snapshot) list \<Rightarrow>
   (snapshot \<Rightarrow> string \<Rightarrow> delivery list \<Rightarrow> js_error option \<times> delivery list) \<Rightarrow>
   delivery list \<Rightarrow> js_error option \<times> delivery list"
where
  "each_keys [] f dl = (None, dl)"
| "each_keys ((k, v) # kvs) f dl =
     (case f v k dl of
        (Some e, dl') \<Rightarrow> (Some e, dl')
      | (None, dl') \<Rightarrow> each_keys kvs f dl')"

definition each ::
  "(string \<times> snapshot) list option \<Rightarrow>
   (receiver \<Rightarrow> snapshot \<Rightarrow> string \<Rightarrow> delivery list \<Rightarrow> js_error option \<times> delivery list) \<Rightarrow>
   receiver option \<Rightarrow> delivery list \<Rightarrow> js_error option \<times> delivery list"
where
  "each obj iteratee context dl =
     (case obj of None \<Rightarrow> (None, dl)
      | Some kvs \<Rightarrow> each_keys kvs (iteratee (this_of context)) dl)"

text \<open>
  \<^verbatim>\<open>emitPackets\<close> hands \<^verbatim>\<open>_.each\<close> the packets and the callback, and no context.
\<close>

definition emitPackets ::
  "telemetry \<Rightarrow> (string \<times> snapshot) list option \<Rightarrow> delivery list \<Rightarrow>
   js_error option \<times> delivery list"
where
  "emitPackets self packets dl = each packets packet_callback None dl"

subsection \<open>Accessors and the data row decoder\<close>

text \<open>
  Modelled from the spec: \<^verbatim>\<open>TelemetryData.getHeaders\<close>, which the connection module calls
  and the model's source does not define; it reads the Header List.
\<close>

definition getHeaders :: "telemetry \<Rightarrow> string list" where
  "getHeaders self = headers self"

text \<open>
  Modelled from the spec: \<^verbatim>\<open>TelemetryData.clearHeaders\<close>, called on connect and not
  defined in the model's source; it clears the Header List.
\<close>

definition clearHeaders :: "telemetry \<Rightarrow> telemetry" where
  "clearHeaders self = self\<lparr>headers := []\<rparr>"

text \<open>
  Modelled from the spec: \<^verbatim>\<open>TelemetryData.getCurrentState\<close>, called for logging and not
  defined in the model's source; it reads \<open>current_state\<close>.
\<close>

definition getCurrentState :: "telemetry \<Rightarrow> snapshot" where
  "getCurrentState self = current_state self"

text \<open>
  The position-wise zip \<open>mapping[header[i]] = value[i]\<close>: the longer side's extra
  entries are dropped, and a later column of the same name overwrites an earlier one.
\<close>

definition zip_snapshot :: "string list \<Rightarrow> string list \<Rightarrow> snapshot" where
  "zip_snapshot hs vs = foldl (\<lambda>m hv. m(fst hv \<mapsto> snd hv)) Map.empty (zip hs vs)"

text \<open>
  Modelled from the spec: \<^verbatim>\<open>TelemetryData.setCurrentStateFromString\<close>, called for every
  data frame and not defined in the model's source. It splits the text on the field
  delimiter, zips the values against the Header List, makes the snapshot the current
  state, appends it to \<open>state_history\<close> and appends the (timestamp, text) pair to
  \<open>received\<close>. The values stay the texts of their columns; \<open>now\<close> is the clock reading.
\<close>

definition setCurrentStateFromString :: "nat \<Rightarrow> string \<Rightarrow> telemetry \<Rightarrow> telemetry" where
  "setCurrentStateFromString now data_string self =
     (let snap = zip_snapshot (headers self) (split_on CHR '','' data_string)
      in self\<lparr>current_state := snap,
              state_history := state_history self @ [snap],
              received := received self @ [(now, data_string)]\<rparr>)"

section \<open>connections/DataRelay\<close>

text \<open>
  Calls into the collaborators (logger, status manager, header validator) are recorded as
  effects, in order.
\<close>

datatype effect =
    LoggerError string
  | LoggerDebug string
  | LoggerData_headers "string list" string
  | LoggerData_state snapshot string
  | CheckForMissingHeaders "string list"
  | SetStatusCode string bool
  | AddStatus string nat nat

record outcome =
  exn :: "js_error option"
  model :: telemetry
  effs :: "effect list"
  delivered :: "delivery list"

definition parseHeaders :: "string \<Rightarrow> telemetry \<Rightarrow> outcome" where
  "parseHeaders data td =
     (let td1 = setHeadersFromString data td
      in \<lparr>exn = None, model = td1,
          effs = [CheckForMissingHeaders (getHeaders td1),
                  LoggerDebug (''Network data_relay Received headers: '' @ data),
                  LoggerData_headers (getHeaders td1) ''DATA_RELAY_HEADERS'',
                  AddStatus ''Received headers from data_relay'' 3 3000],
          delivered = []\<rparr>)"

definition parseData :: "nat \<Rightarrow> string \<Rightarrow> telemetry \<Rightarrow> outcome" where
  "parseData now data td =
     (let td1 = setCurrentStateFromString now data td
      in case emitPackets td1 None [] of
           (Some e, dl) \<Rightarrow> \<lparr>exn = Some e, model = td1, effs = [], delivered = dl\<rparr>
         | (None, dl) \<Rightarrow>
             \<lparr>exn = None, model = td1,
              effs = [LoggerData_state (getCurrentState td1) ''DATA_RELAY_DATA'',
                      SetStatusCode ''TIMEOUT_DATA_RELAY'' False],
              delivered = dl\<rparr>)"

text \<open>
  What a \<^verbatim>\<open>data\<close> event can carry: nothing, a string, or a byte buffer (decoded to
  its text by \<^verbatim>\<open>toString\<close>). A buffer is an object, so it is truthy even when empty.
\<close>

datatype frame = FUndefined | FNull | FString string | FBuffer string

fun falsy :: "frame \<Rightarrow> bool" where
  "falsy FUndefined = True"
| "falsy FNull = True"
| "falsy (FString s) = (s = [])"
| "falsy (FBuffer b) = False"

fun frame_toString :: "frame \<Rightarrow> js_error + string" where
  "frame_toString FUndefined = Inl TypeError"
| "frame_toString FNull = Inl TypeError"
| "frame_toString (FString s) = Inr s"
| "frame_toString (FBuffer b) = Inr b"

fun frame_concat :: "frame \<Rightarrow> string" where
  "frame_concat FUndefined = ''undefined''"
| "frame_concat FNull = ''null''"
| "frame_concat (FString s) = s"
| "frame_concat (FBuffer b) = b"

text \<open>The \<^verbatim>\<open>data\<close> handler that \<^verbatim>\<open>connectTCP\<close> installs.\<close>

definition data_handler :: "nat \<Rightarrow> frame \<Rightarrow> telemetry \<Rightarrow> outcome" where
  "data_handler now data td =
     (if falsy data then
        \<lparr>exn = None, model = td,
         effs = [LoggerError
                   (''Got a blank packet from the data relay station. Value: '' @ frame_concat data)],
         delivered = []\<rparr>
      else case frame_toString data of
             Inl e \<Rightarrow> \<lparr>exn = Some e, model = td, effs = [], delivered = []\<rparr>
           | Inr text \<Rightarrow>
               if length (getHeaders td) = 0 then parseHeaders text td
               else parseData now text td)"

section \<open>The ip package and the discovery of the broadcast address\<close>

text \<open>
  \<^verbatim>\<open>ip.isV4Format\<close> tests the pattern \<^verbatim>\<open>^(\d{1,3}\.){3,3}\d{1,3}$\<close>: four groups of one
  to three digits, separated by dots, and nothing else.
\<close>

definition isV4Format :: "string \<Rightarrow> bool" where
  "isV4Format s =
     (let parts = split_on CHR ''.'' s
      in length parts = 4 \<and>
         list_all (\<lambda>p. 1 \<le> length p \<and> length p \<le> 3 \<and> list_all is_digit p) parts)"

definition digit_val :: "char \<Rightarrow> nat" where
  "digit_val c = of_char c - 48"

definition parseInt10 :: "string \<Rightarrow> nat" where
  "parseInt10 p = foldl (\<lambda>a c. 10 * a + digit_val c) 0 p"

text \<open>
  \<^verbatim>\<open>ip.toBuffer\<close> on a dotted quad: each part is \<^verbatim>\<open>parseInt(part, 10) & 0xff\<close>. Any
  other text is an error (IPv6 texts are not modelled).
\<close>

definition toBuffer :: "string \<Rightarrow> js_error + 8 word list" where
  "toBuffer s =
     (if isV4Format s
      then Inr (map (\<lambda>p. word_of_nat (parseInt10 p) AND 0xFF) (split_on CHR ''.'' s))
      else Inl InvalidIp)"

definition digit_char :: "nat \<Rightarrow> char" where
  "digit_char n = ''0123456789'' ! (n mod 10)"

definition byte_string :: "nat \<Rightarrow> string" where
  "byte_string n =
     (if n < 10 then [digit_char n]
      else if n < 100 then [digit_char (n div 10), digit_char (n mod 10)]
      else [digit_char (n div 100), digit_char (n div 10 mod 10), digit_char (n mod 10)])"

definition ip_toString :: "8 word list \<Rightarrow> string" where
  "ip_toString buff = join_with CHR ''.'' (map (\<lambda>b. byte_string (unat b)) buff)"

definition ip_not :: "string \<Rightarrow> js_error + string" where
  "ip_not addr =
     (case toBuffer addr of
        Inl e \<Rightarrow> Inl e
      | Inr buff \<Rightarrow> Inr (ip_toString (map (\<lambda>b. 0xFF XOR b) buff)))"

definition ip_or :: "string \<Rightarrow> string \<Rightarrow> js_error + string" where
  "ip_or a b =
     (case toBuffer a of
        Inl e \<Rightarrow> Inl e
      | Inr ba \<Rightarrow>
          (case toBuffer b of
             Inl e \<Rightarrow> Inl e
           | Inr bb \<Rightarrow> Inr (ip_toString (map (\<lambda>xy. fst xy OR snd xy) (zip ba bb)))))"

subsection \<open>The two global matches\<close>

text \<open>
  \<^verbatim>\<open>stdout.match(re)\<close> with a global pattern returns the matched texts, whole, from left
  to right, each search starting where the last match ended; capture groups play no part.
\<close>

definition digit_or_dot :: "char \<Rightarrow> bool" where
  "digit_or_dot c = (is_digit c \<or> c = CHR ''.'')"

definition is_line_terminator :: "char \<Rightarrow> bool" where
  "is_line_terminator c = (c = CHR 0x0A \<or> c = CHR 0x0D)"

text \<open>The index of the last occurrence of \<open>p\<close> in a text.\<close>

fun find_last :: "string \<Rightarrow> string \<Rightarrow> nat option" where
  "find_last p [] = (if p = [] then Some 0 else None)"
| "find_last p (x # xs) =
     (case find_last p xs of
        Some k \<Rightarrow> Some (Suc k)
      | None \<Rightarrow> if prefix p (x # xs) then Some 0 else None)"

text \<open>
  \<^verbatim>\<open>/(?:Subnet Mask)(?:.| )*: ([\d.]*)/\<close> at the start of \<open>s\<close>: the label, then as much of
  the line as leaves a \<^verbatim>\<open>": "\<close> to follow (the greedy star gives back from the end of
  the line), then the longest run of digits and dots.
\<close>

definition subnet_mask_at :: "string \<Rightarrow> string option" where
  "subnet_mask_at s =
     (if prefix ''Subnet Mask'' s then
        (let line = takeWhile (\<lambda>c. \<not> is_line_terminator c) (drop 11 s)
         in case find_last '': '' line of
              None \<Rightarrow> None
            | Some k \<Rightarrow>
                Some (''Subnet Mask'' @ take (k + 2) line @
                      takeWhile digit_or_dot (drop (k + 2) line)))
      else None)"

text \<open>\<^verbatim>\<open>/(?:Bcast|broadcast):([\d.]*)/\<close> at the start of \<open>s\<close>.\<close>

definition bcast_at :: "string \<Rightarrow> string option" where
  "bcast_at s =
     (if prefix ''Bcast:'' s then Some (''Bcast:'' @ takeWhile digit_or_dot (drop 6 s))
      else if prefix ''broadcast:'' s
      then Some (''broadcast:'' @ takeWhile digit_or_dot (drop 10 s))
      else None)"

function match_subnet_mask :: "string \<Rightarrow> string list" where
  "match_subnet_mask s =
     (if s = [] then []
      else case subnet_mask_at s of
             Some m \<Rightarrow> m # match_subnet_mask (drop (length m) s)
           | None \<Rightarrow> match_subnet_mask (tl s))"
  by pat_completeness auto
termination
  by (relation "measure length")
     (auto simp: subnet_mask_at_def Let_def split: if_splits option.splits)

function match_bcast :: "string \<Rightarrow> string list" where
  "match_bcast s =
     (if s = [] then []
      else case bcast_at s of
             Some m \<Rightarrow> m # match_bcast (drop (length m) s)
           | None \<Rightarrow> match_bcast (tl s))"
  by pat_completeness auto
termination
  by (relation "measure length") (auto simp: bcast_at_def split: if_splits)

declare match_subnet_mask.simps [simp del]

declare match_bcast.simps [simp del]

subsection \<open>findUDP\<close>

text \<open>
  The loops over the matches. Each \<^verbatim>\<open>connectUDP(broadcast)\<close> is one discovery attempt;
  the result lists the destinations of the attempts made, in order, and the exception
  that ended the callback, if any.
\<close>

fun connect_matches_windows :: "string \<Rightarrow> string list \<Rightarrow> js_error option \<times> string list" where
  "connect_matches_windows localIP [] = (None, [])"
| "connect_matches_windows localIP (m # ms) =
     (if isV4Format m then
        (case ip_not m of
           Inl e \<Rightarrow> (Some e, [])
         | Inr nm \<Rightarrow>
             (case ip_or nm localIP of
                Inl e \<Rightarrow> (Some e, [])
              | Inr broadcast \<Rightarrow>
                  (case connect_matches_windows localIP ms of
                     (e, ds) \<Rightarrow> (e, broadcast # ds))))
      else connect_matches_windows localIP ms)"

fun connect_matches_linux :: "string list \<Rightarrow> js_error option \<times> string list" where
  "connect_matches_linux [] = (None, [])"
| "connect_matches_linux (m # ms) =
     (if isV4Format m then
        (case connect_matches_linux ms of (e, ds) \<Rightarrow> (e, m # ds))
      else connect_matches_linux ms)"

text \<open>
  The outcome of \<^verbatim>\<open>exec\<close>: an error, or the text the command printed. In the error
  branch the callback names \<^verbatim>\<open>Log\<close>, which the module does not declare.
\<close>

datatype exec_result = ExecError | ExecOk string

definition findUDP :: "string \<Rightarrow> exec_result \<Rightarrow> string \<Rightarrow> js_error option \<times> string list" where
  "findUDP os res localIP =
     (if includes_str os ''win'' then
        (case res of
           ExecError \<Rightarrow> (Some ReferenceError, [])
         | ExecOk stdout \<Rightarrow> connect_matches_windows localIP (match_subnet_mask stdout))
      else
        (case res of
           ExecError \<Rightarrow> (Some ReferenceError, [])
         | ExecOk stdout \<Rightarrow> connect_matches_linux (match_bcast stdout)))"

subsection \<open>connectUDP\<close>






section \<open>util/Validator\<close>

text \<open>
  JavaScript values as the validators see them. A number is NaN, an infinity, or a finite
  value (every double is a rational). An object carries what its conversions to number
  and to string give. The conversion of a numeric literal text to a number rounds to a
  double and belongs to the runtime: it is the parameter \<open>numlit\<close>, applied to the
  trimmed, non-empty text; so is the formatting of a number, \<open>numstr\<close>.
\<close>

datatype jsnum = NaN | Finite rat | PosInfinity | NegInfinity

datatype jsval =
    JUndefined
  | JNull
  | JBool bool
  | JNumber jsnum
  | JString string
  | JObject jsnum string

fun typeof :: "jsval \<Rightarrow> string" where
  "typeof JUndefined = ''undefined''"
| "typeof JNull = ''object''"
| "typeof (JBool b) = ''boolean''"
| "typeof (JNumber n) = ''number''"
| "typeof (JString s) = ''string''"
| "typeof (JObject n s) = ''object''"

fun truthy :: "jsval \<Rightarrow> bool" where
  "truthy JUndefined = False"
| "truthy JNull = False"
| "truthy (JBool b) = b"
| "truthy (JNumber n) = (n \<noteq> NaN \<and> n \<noteq> Finite 0)"
| "truthy (JString s) = (s \<noteq> [])"
| "truthy (JObject n s) = True"

fun Number :: "(string \<Rightarrow> jsnum) \<Rightarrow> jsval \<Rightarrow> jsnum" where
  "Number numlit JUndefined = NaN"
| "Number numlit JNull = Finite 0"
| "Number numlit (JBool b) = Finite (if b then 1 else 0)"
| "Number numlit (JNumber n) = n"
| "Number numlit (JString s) = (if trim s = [] then Finite 0 else numlit (trim s))"
| "Number numlit (JObject n s) = n"

definition isNaN :: "(string \<Rightarrow> jsnum) \<Rightarrow> jsval \<Rightarrow> bool" where
  "isNaN numlit v = (Number numlit v = NaN)"

text \<open>\<^verbatim>\<open>a <= b\<close> and \<^verbatim>\<open>a >= b\<close> on numbers: false as soon as one side is NaN.\<close>

fun js_le :: "jsnum \<Rightarrow> jsnum \<Rightarrow> bool" where
  "js_le NaN b = False"
| "js_le a NaN = False"
| "js_le NegInfinity b = True"
| "js_le a PosInfinity = True"
| "js_le (Finite a) (Finite b) = (a \<le> b)"
| "js_le PosInfinity b = False"
| "js_le (Finite a) NegInfinity = False"

definition js_ge :: "jsnum \<Rightarrow> jsnum \<Rightarrow> bool" where
  "js_ge a b = js_le b a"

definition isValidNumber :: "(string \<Rightarrow> jsnum) \<Rightarrow> jsval \<Rightarrow> jsval" where
  "isValidNumber numlit number =
     (if typeof number \<noteq> ''undefined'' \<and> number \<noteq> JNull \<and> \<not> isNaN numlit number
      then JBool True else JUndefined)"

definition isValidPitch :: "(string \<Rightarrow> jsnum) \<Rightarrow> jsval \<Rightarrow> jsval" where
  "isValidPitch numlit pitch =
     (if truthy (isValidNumber numlit pitch) \<and> js_ge (Number numlit pitch) (Finite (- 180)) \<and>
         js_le (Number numlit pitch) (Finite 180)
      then JBool True else JBool False)"

definition isValidRoll :: "(string \<Rightarrow> jsnum) \<Rightarrow> jsval \<Rightarrow> jsval" where
  "isValidRoll numlit roll =
     (if truthy (isValidNumber numlit roll) \<and> js_ge (Number numlit roll) (Finite (- 180)) \<and>
         js_le (Number numlit roll) (Finite 180)
      then JBool True else JBool False)"

text \<open>
  A reading of unsigned decimal integer literals, to stand for the runtime's conversion
  in examples (it is exact on them).
\<close>

definition digits_literal :: "string \<Rightarrow> jsnum" where
  "digits_literal s =
     (if s \<noteq> [] \<and> list_all is_digit s then Finite (of_nat (parseInt10 s)) else NaN)"

section \<open>Commands\<close>

text \<open>
  String concatenation converts its operand to a string. The connection
  \<^verbatim>\<open>Network.connections['data_relay']\<close> is absent or holds the texts written to it.
\<close>

fun ToString :: "(jsnum \<Rightarrow> string) \<Rightarrow> jsval \<Rightarrow> string" where
  "ToString numstr JUndefined = ''undefined''"
| "ToString numstr JNull = ''null''"
| "ToString numstr (JBool b) = (if b then ''true'' else ''false'')"
| "ToString numstr (JNumber n) = numstr n"
| "ToString numstr (JString s) = s"
| "ToString numstr (JObject n s) = s"

datatype logged = LoggerWarn string | LoggerErr string

record sending =
  raised :: "js_error option"
  data_relay :: "string list option"
  logs :: "logged list"

definition checkConnection :: "string list option \<Rightarrow> bool \<times> logged list" where
  "checkConnection conn =
     (case conn of
        Some c \<Rightarrow> (True, [])
      | None \<Rightarrow>
          (False,
           [LoggerWarn
              ''Cannot send command as the data_relay connection has not yet been established'']))"

definition sendCommand ::
  "(jsnum \<Rightarrow> string) \<Rightarrow> string \<Rightarrow> jsval \<Rightarrow> string list option \<Rightarrow> js_error + string list"
where
  "sendCommand numstr command v conn =
     (case conn of
        None \<Rightarrow> Inl TypeError
      | Some c \<Rightarrow> Inr (c @ [command @ '':'' @ ToString numstr v @ CRLF]))"

definition sendRoll ::
  "(string \<Rightarrow> jsnum) \<Rightarrow> (jsnum \<Rightarrow> string) \<Rightarrow> jsval \<Rightarrow> string list option \<Rightarrow> sending"
where
  "sendRoll numlit numstr roll conn =
     (case checkConnection conn of
        (True, l) \<Rightarrow>
          if truthy (isValidRoll numlit roll) then
            (case sendCommand numstr ''set_rollAngle'' roll conn of
               Inl e \<Rightarrow> \<lparr>raised = Some e, data_relay = conn, logs = l\<rparr>
             | Inr c \<Rightarrow> \<lparr>raised = None, data_relay = Some c, logs = l\<rparr>)
          else
            \<lparr>raised = None, data_relay = conn,
             logs = l @ [LoggerErr
                          (''Command to not sent since invalid roll value detected! Roll:'' @
                           ToString numstr roll)]\<rparr>
      | (False, l) \<Rightarrow> \<lparr>raised = None, data_relay = conn, logs = l\<rparr>)"

section \<open>Example listeners\<close>

text \<open>
  Two listeners for the examples: the first throws whenever it is called, the second
  never does. The first is registered for the position category before the second, and
  the second for the status category as well.
\<close>

definition faulty :: listener where
  "faulty = \<lparr>lid = 1, throws = (\<lambda>p. True)\<rparr>"

definition sound :: listener where
  "sound = \<lparr>lid = 2, throws = (\<lambda>p. False)\<rparr>"

definition two_listeners :: telemetry where
  "two_listeners =
     on ''aircraft_status'' sound
       (on ''aircraft_position'' sound (on ''aircraft_position'' faulty new_TelemetryData))"

section \<open>Splitting and trimming\<close>

lemma split_on_not_Nil: "split_on c s \<noteq> []"
  by (induction s) (auto split: list.splits)

lemma join_with_Cons: "join_with c ((x # t) # ts) = x # join_with c (t # ts)"
  by (cases ts) auto

lemma join_with_Nil_Cons: "ts \<noteq> [] \<Longrightarrow> join_with c ([] # ts) = c # join_with c ts"
  by (cases ts) auto

lemma join_with_split_on: "join_with c (split_on c s) = s"
proof (induction s)
  case Nil
  show ?case by simp
next
  case (Cons x xs)
  show ?case
  proof (cases "x = c")
    case True
    with Cons show ?thesis by (simp add: join_with_Nil_Cons split_on_not_Nil)
  next
    case False
    obtain t ts where ts: "split_on c xs = t # ts"
      using split_on_not_Nil [of c xs] by (cases "split_on c xs") auto
    with Cons False show ?thesis by (simp add: join_with_Cons)
  qed
qed

lemma split_on_no_separator: "list_all (\<lambda>t. c \<notin> set t) (split_on c s)"
  by (induction s) (auto split: list.splits)

lemma trim_decompose:
  "\<exists>l r. t = l @ trim t @ r \<and> list_all is_ws l \<and> list_all is_ws r"
proof -
  let ?l = "takeWhile is_ws t"
  let ?m = "dropWhile is_ws t"
  let ?r = "rev (takeWhile is_ws (rev ?m))"
  have "rev ?m = takeWhile is_ws (rev ?m) @ dropWhile is_ws (rev ?m)" by simp
  then have "?m = rev (dropWhile is_ws (rev ?m)) @ ?r"
    by (metis rev_append rev_rev_ident)
  then have "t = ?l @ trim t @ ?r"
    by (metis takeWhile_dropWhile_id trim_def)
  moreover have "list_all is_ws ?l"
    by (simp add: list_all_iff) (meson set_takeWhileD)
  moreover have "list_all is_ws ?r"
    by (simp add: list_all_iff) (meson set_takeWhileD)
  ultimately show ?thesis by blast
qed

lemma trim_ends:
  "trim t = [] \<or> (\<not> is_ws (hd (trim t)) \<and> \<not> is_ws (last (trim t)))"
proof (cases "trim t = []")
  case True
  then show ?thesis by simp
next
  case False
  let ?m = "dropWhile is_ws t"
  have ne: "dropWhile is_ws (rev ?m) \<noteq> []" using False by (simp add: trim_def)
  have h: "\<not> is_ws (hd (dropWhile is_ws (rev ?m)))" using ne hd_dropWhile by blast
  have last_ok: "\<not> is_ws (last (trim t))"
    using h ne by (simp add: trim_def last_rev)
  have mne: "?m \<noteq> []" using ne by (cases "dropWhile is_ws t") simp_all
  have "\<not> is_ws (hd ?m)" using mne hd_dropWhile by blast
  moreover have "hd (trim t) = hd ?m"
  proof -
    have "rev ?m = takeWhile is_ws (rev ?m) @ dropWhile is_ws (rev ?m)" by simp
    then have "?m = trim t @ rev (takeWhile is_ws (rev ?m))"
      by (metis rev_append rev_rev_ident trim_def)
    then show ?thesis using False by (metis hd_append2)
  qed
  ultimately show ?thesis using last_ok by simp
qed

text \<open>
  C8. For every input string, \<open>setHeadersFromString\<close> splits it on the comma, trims the
  white space around every token, keeps the order of the tokens and replaces the prior
  Header List, leaving every other field as it was. The tokens are the pieces of the
  input between its commas: joined with commas they give the input back and none holds a
  comma. Each header is its token without the white space at its two ends. The text
  \<open>a, b ,c\<close> gives the headers \<open>a\<close>, \<open>b\<close>, \<open>c\<close>.
\<close>

theorem setHeadersFromString_split_trim:
  "headers (setHeadersFromString s self) = map trim (split_on CHR '','' s) \<and>
   join_with CHR '','' (split_on CHR '','' s) = s \<and>
   list_all (\<lambda>t. CHR '','' \<notin> set t) (split_on CHR '','' s) \<and>
   list_all (\<lambda>t. \<exists>l r. t = l @ trim t @ r \<and> list_all is_ws l \<and> list_all is_ws r)
     (split_on CHR '','' s) \<and>
   list_all (\<lambda>h. h = [] \<or> (\<not> is_ws (hd h) \<and> \<not> is_ws (last h)))
     (headers (setHeadersFromString s self)) \<and>
   setHeadersFromString s (self\<lparr>headers := old\<rparr>) = setHeadersFromString s self \<and>
   setHeadersFromString s self = self\<lparr>headers := headers (setHeadersFromString s self)\<rparr> \<and>
   headers (setHeadersFromString ''a, b ,c'' self) = [''a'', ''b'', ''c'']"
proof -
  have dec: "list_all (\<lambda>t. \<exists>l r. t = l @ trim t @ r \<and> list_all is_ws l \<and> list_all is_ws r)
               (split_on CHR '','' s)"
    using trim_decompose by (simp add: list_all_iff)
  have ends: "list_all (\<lambda>h. h = [] \<or> (\<not> is_ws (hd h) \<and> \<not> is_ws (last h)))
                (map trim (split_on CHR '','' s))"
    using trim_ends by (simp add: list_all_iff)
  have ex: "map trim (split_on CHR '','' ''a, b ,c'') = [''a'', ''b'', ''c'']"
    by (simp add: trim_def is_ws_def)
  show ?thesis
    using dec ends ex
    by (simp add: setHeadersFromString_def join_with_split_on split_on_no_separator)
qed

theorem setHeadersFromString_split_trim_witness:
  "headers (setHeadersFromString '' lat ,lon,  alt ''
      (new_TelemetryData\<lparr>headers := [''old'']\<rparr>)) = [''lat'', ''lon'', ''alt''] \<and>
   join_with CHR '','' (split_on CHR '','' '' lat ,lon,  alt '') = '' lat ,lon,  alt ''"
  using setHeadersFromString_split_trim
          [of "'' lat ,lon,  alt ''" "new_TelemetryData\<lparr>headers := [''old'']\<rparr>" "[]"]
  by (simp add: trim_def is_ws_def)

section \<open>The validators\<close>

lemma js_le_Finite: "js_le a (Finite q) = ((\<exists>p. a = Finite p \<and> p \<le> q) \<or> a = NegInfinity)"
  by (cases a) auto

lemma js_ge_Finite: "js_ge a (Finite q) = ((\<exists>p. a = Finite p \<and> q \<le> p) \<or> a = PosInfinity)"
  by (cases a) (auto simp: js_ge_def)

lemma isValidNumber_cases:
  "isValidNumber numlit v =
     (if v \<noteq> JUndefined \<and> v \<noteq> JNull \<and> \<not> isNaN numlit v then JBool True else JUndefined)"
  by (cases v) (auto simp: isValidNumber_def isNaN_def)

lemma in_range_iff:
  "(truthy (isValidNumber numlit v) \<and> js_ge (Number numlit v) (Finite (- 180)) \<and>
    js_le (Number numlit v) (Finite 180)) =
   (v \<noteq> JUndefined \<and> v \<noteq> JNull \<and> \<not> isNaN numlit v \<and>
    (\<exists>q. Number numlit v = Finite q \<and> - 180 \<le> q \<and> q \<le> 180))"
  by (auto simp: isValidNumber_cases js_le_Finite js_ge_Finite isNaN_def)

text \<open>
  C10. \<open>isValidRoll\<close> and \<open>isValidPitch\<close> return true for exactly the inputs that are
  neither undefined nor null, are not NaN under \<open>isNaN\<close>, and whose \<open>Number\<close> is a
  finite value between -180 and 180, bounds included; on every other input they return
  false. Numeric strings are judged by their number, and the empty string, whose number
  is 0, is accepted. \<open>isValidNumber\<close> returns true on the inputs that are neither
  undefined nor null nor NaN, and undefined, not false, on the others.
\<close>

theorem isValidRoll_isValidPitch_accept:
  "(isValidRoll numlit v = JBool True \<longleftrightarrow>
      v \<noteq> JUndefined \<and> v \<noteq> JNull \<and> \<not> isNaN numlit v \<and>
      (\<exists>q. Number numlit v = Finite q \<and> - 180 \<le> q \<and> q \<le> 180)) \<and>
   (isValidPitch numlit v = JBool True \<longleftrightarrow>
      v \<noteq> JUndefined \<and> v \<noteq> JNull \<and> \<not> isNaN numlit v \<and>
      (\<exists>q. Number numlit v = Finite q \<and> - 180 \<le> q \<and> q \<le> 180)) \<and>
   (isValidRoll numlit v = JBool True \<or> isValidRoll numlit v = JBool False) \<and>
   (isValidPitch numlit v = JBool True \<or> isValidPitch numlit v = JBool False) \<and>
   (isValidRoll numlit (JString s) = JBool True \<longleftrightarrow>
      (\<exists>q. Number numlit (JString s) = Finite q \<and> - 180 \<le> q \<and> q \<le> 180)) \<and>
   Number numlit (JString '''') = Finite 0 \<and>
   isValidRoll numlit (JString '''') = JBool True \<and>
   isValidPitch numlit (JString '''') = JBool True \<and>
   (isValidNumber numlit v = JBool True \<longleftrightarrow>
      v \<noteq> JUndefined \<and> v \<noteq> JNull \<and> \<not> isNaN numlit v) \<and>
   (isValidNumber numlit v = JBool True \<or> isValidNumber numlit v = JUndefined)"
proof -
  have roll: "isValidRoll numlit w = JBool True \<longleftrightarrow>
      w \<noteq> JUndefined \<and> w \<noteq> JNull \<and> \<not> isNaN numlit w \<and>
      (\<exists>q. Number numlit w = Finite q \<and> - 180 \<le> q \<and> q \<le> 180)" for w
    unfolding isValidRoll_def in_range_iff by simp
  have pitch: "isValidPitch numlit w = JBool True \<longleftrightarrow>
      w \<noteq> JUndefined \<and> w \<noteq> JNull \<and> \<not> isNaN numlit w \<and>
      (\<exists>q. Number numlit w = Finite q \<and> - 180 \<le> q \<and> q \<le> 180)" for w
    unfolding isValidPitch_def in_range_iff by simp
  have empty: "Number numlit (JString '''') = Finite 0" by (simp add: trim_def)
  have str: "isValidRoll numlit (JString s) = JBool True \<longleftrightarrow>
      (\<exists>q. Number numlit (JString s) = Finite q \<and> - 180 \<le> q \<and> q \<le> 180)"
    unfolding roll by (auto simp: isNaN_def)
  have e1: "isValidRoll numlit (JString '''') = JBool True"
    unfolding roll using empty by (simp add: isNaN_def)
  have e2: "isValidPitch numlit (JString '''') = JBool True"
    unfolding pitch using empty by (simp add: isNaN_def)
  have b1: "isValidRoll numlit v = JBool True \<or> isValidRoll numlit v = JBool False"
    by (simp add: isValidRoll_def)
  have b2: "isValidPitch numlit v = JBool True \<or> isValidPitch numlit v = JBool False"
    by (simp add: isValidPitch_def)
  have n: "(isValidNumber numlit v = JBool True \<longleftrightarrow>
      v \<noteq> JUndefined \<and> v \<noteq> JNull \<and> \<not> isNaN numlit v) \<and>
   (isValidNumber numlit v = JBool True \<or> isValidNumber numlit v = JUndefined)"
    by (simp add: isValidNumber_cases)
  show ?thesis using roll [of v] pitch [of v] str empty e1 e2 b1 b2 n by blast
qed

theorem isValidRoll_isValidPitch_accept_witness:
  "isValidRoll digits_literal (JString '' 90 '') = JBool True \<and>
   isValidPitch digits_literal (JString '' 90 '') = JBool True \<and>
   Number digits_literal (JString '' 90 '') = Finite 90 \<and>
   isValidNumber digits_literal (JString '' 90 '') = JBool True \<and>
   isValidRoll digits_literal (JString ''181'') = JBool False \<and>
   isValidNumber digits_literal (JString ''abc'') = JUndefined \<and>
   isValidRoll digits_literal JNull = JBool False"
proof -
  have n: "Number digits_literal (JString '' 90 '') = Finite 90"
    by (simp add: trim_def is_ws_def digits_literal_def is_digit_def parseInt10_def digit_val_def)
  have m: "Number digits_literal (JString ''181'') = Finite 181"
    by (simp add: trim_def is_ws_def digits_literal_def is_digit_def parseInt10_def digit_val_def)
  have a: "Number digits_literal (JString ''abc'') = NaN"
    by (simp add: trim_def is_ws_def digits_literal_def is_digit_def)
  show ?thesis
    using isValidRoll_isValidPitch_accept [of digits_literal "JString '' 90 ''" "'' 90 ''"]
      isValidRoll_isValidPitch_accept [of digits_literal "JString ''181''" "''181''"]
      isValidRoll_isValidPitch_accept [of digits_literal "JString ''abc''" "''abc''"]
      isValidRoll_isValidPitch_accept [of digits_literal "JNull" "''''"]
      n m a
    by (auto simp: isNaN_def)
qed

section \<open>Sending a roll command\<close>

lemma truthy_isValidRoll: "truthy (isValidRoll numlit roll) = (isValidRoll numlit roll = JBool True)"
  by (simp add: isValidRoll_def)

lemma digits_literal_45: "Number digits_literal (JString ''45'') = Finite 45"
  by (simp add: trim_def is_ws_def digits_literal_def is_digit_def parseInt10_def digit_val_def)

lemma isValidRoll_45: "isValidRoll digits_literal (JString ''45'') = JBool True"
  using digits_literal_45
  by (simp add: isValidRoll_def isValidNumber_def isNaN_def js_ge_def del: Number.simps)

text \<open>
  C9, as amended. For every roll value \<open>r\<close>, \<open>sendRoll\<close> writes one text to the
  data_relay connection, the command \<open>set_rollAngle:\<close> followed by \<open>r\<close> and by a
  carriage return and a line feed, if and only if the connection exists and
  \<open>isValidRoll r\<close> is true; otherwise nothing is written and the connection is as it
  was. No exception is raised either way.
\<close>

theorem sendRoll_writes_iff_valid:
  "data_relay (sendRoll numlit numstr roll conn) =
     (case conn of
        None \<Rightarrow> None
      | Some c \<Rightarrow>
          if isValidRoll numlit roll = JBool True
          then Some (c @ [''set_rollAngle:'' @ ToString numstr roll @ CRLF])
          else Some c) \<and>
   raised (sendRoll numlit numstr roll conn) = None \<and>
   ((data_relay (sendRoll numlit numstr roll conn) = conn) =
      (conn = None \<or> isValidRoll numlit roll \<noteq> JBool True))"
  by (cases conn)
     (simp_all add: sendRoll_def checkConnection_def sendCommand_def truthy_isValidRoll)

theorem sendRoll_writes_iff_valid_witness:
  "data_relay (sendRoll digits_literal (\<lambda>n. []) (JString ''45'') (Some [''ping''])) =
     Some [''ping'', ''set_rollAngle:45'' @ CRLF] \<and>
   data_relay (sendRoll digits_literal (\<lambda>n. []) (JString ''45'') None) = None \<and>
   data_relay (sendRoll digits_literal (\<lambda>n. []) JNull (Some [''ping''])) = Some [''ping'']"
  using sendRoll_writes_iff_valid [of digits_literal "\<lambda>n. []" "JString ''45''" "Some [''ping'']"]
    sendRoll_writes_iff_valid [of digits_literal "\<lambda>n. []" "JString ''45''" None]
    sendRoll_writes_iff_valid [of digits_literal "\<lambda>n. []" JNull "Some [''ping'']"]
    isValidRoll_45
  by (simp add: isValidRoll_def isValidNumber_def)

text \<open>
  The text written for the roll \<open>45\<close> is not \<open>set_rollAngle:45\<close> alone: the line
  terminator follows it.
\<close>

theorem sendRoll_written_text_counterexample:
  "isValidRoll digits_literal (JString ''45'') = JBool True \<and>
   data_relay (sendRoll digits_literal (\<lambda>n. []) (JString ''45'') (Some [])) =
     Some [''set_rollAngle:45'' @ CRLF] \<and>
   data_relay (sendRoll digits_literal (\<lambda>n. []) (JString ''45'') (Some [])) \<noteq>
     Some [''set_rollAngle:'' @ ToString (\<lambda>n. []) (JString ''45'')]"
  using isValidRoll_45
  by (simp add: sendRoll_def checkConnection_def sendCommand_def CRLF_def)

section \<open>The data handler\<close>

lemma emitPackets_undefined: "emitPackets self None dl = (None, dl)"
  by (simp add: emitPackets_def each_def)

lemma parseData_model:
  "parseData now text td =
     \<lparr>exn = None, model = setCurrentStateFromString now text td,
      effs = [LoggerData_state (current_state (setCurrentStateFromString now text td))
                ''DATA_RELAY_DATA'',
              SetStatusCode ''TIMEOUT_DATA_RELAY'' False],
      delivered = []\<rparr>"
  by (simp add: parseData_def emitPackets_undefined getCurrentState_def Let_def)

lemma truthy_frame_text: "\<not> falsy data \<Longrightarrow> \<exists>text. frame_toString data = Inr text"
  by (cases data) auto

lemma data_handler_truthy:
  "\<not> falsy data \<Longrightarrow> frame_toString data = Inr text \<Longrightarrow>
   data_handler now data td =
     (if getHeaders td = [] then parseHeaders text td else parseData now text td)"
  by (simp add: data_handler_def)

lemma falsy_iff: "falsy data = (data = FUndefined \<or> data = FNull \<or> data = FString [])"
  by (cases data) auto

text \<open>
  C7, as amended. For every inbound frame that is falsy, that is undefined, null or the
  empty string, the handler reports an error and returns: the Header List and the
  Telemetry History (\<open>received\<close>, \<open>state_history\<close>, \<open>current_state\<close>) and every other
  field of the model are as before, and nothing else is done.
\<close>

theorem data_handler_discards_falsy:
  "falsy data = (data = FUndefined \<or> data = FNull \<or> data = FString []) \<and>
   (falsy data \<longrightarrow>
      data_handler now data td =
        \<lparr>exn = None, model = td,
         effs = [LoggerError
                   (''Got a blank packet from the data relay station. Value: '' @
                    frame_concat data)],
         delivered = []\<rparr>)"
  by (simp add: falsy_iff data_handler_def)

theorem data_handler_discards_falsy_witness:
  "falsy (FString []) \<and>
   model (data_handler 3 (FString []) (new_TelemetryData\<lparr>headers := [''lat'']\<rparr>)) =
     new_TelemetryData\<lparr>headers := [''lat'']\<rparr> \<and>
   effs (data_handler 3 (FString []) (new_TelemetryData\<lparr>headers := [''lat'']\<rparr>)) =
     [LoggerError ''Got a blank packet from the data relay station. Value: '']"
  using data_handler_discards_falsy
          [of "FString []" 3 "new_TelemetryData\<lparr>headers := [''lat'']\<rparr>"]
  by simp

text \<open>
  A byte buffer is not a string and is not discarded: on a fresh model the buffer with
  the text \<open>lat,lon\<close> sets the Header List, and no error is reported.
\<close>

theorem data_handler_buffer_counterexample:
  "FBuffer ''lat,lon'' \<noteq> FString ''lat,lon'' \<and>
   headers new_TelemetryData = [] \<and>
   headers (model (data_handler 0 (FBuffer ''lat,lon'') new_TelemetryData)) = [''lat'', ''lon''] \<and>
   effs (data_handler 0 (FBuffer ''lat,lon'') new_TelemetryData) =
     [CheckForMissingHeaders [''lat'', ''lon''],
      LoggerDebug ''Network data_relay Received headers: lat,lon'',
      LoggerData_headers [''lat'', ''lon''] ''DATA_RELAY_HEADERS'',
      AddStatus ''Received headers from data_relay'' 3 3000]"
  by (simp add: data_handler_def parseHeaders_def setHeadersFromString_def getHeaders_def
      new_TelemetryData_def trim_def is_ws_def)

text \<open>
  C2. For every inbound frame that passes the blank check, with \<open>text\<close> its text: if
  the Header List is empty the frame is handled by \<open>parseHeaders\<close>, which splits the
  text on commas, trims every field, stores the result as the new Header List (which is
  then non-empty) and passes it to the Header Validator, and \<open>received\<close>,
  \<open>state_history\<close> and \<open>current_state\<close> stay as they are, so no data row is accepted;
  if the Header List is non-empty the frame is handled by \<open>parseData\<close>, which leaves
  the Header List alone and appends one entry to \<open>received\<close> and to \<open>state_history\<close>.
\<close>

theorem data_handler_header_or_data:
  assumes "\<not> falsy data"
  shows "\<exists>text. frame_toString data = Inr text \<and>
     (getHeaders td = [] \<longrightarrow>
        data_handler now data td = parseHeaders text td \<and>
        headers (model (data_handler now data td)) = map trim (split_on CHR '','' text) \<and>
        CheckForMissingHeaders (map trim (split_on CHR '','' text))
          \<in> set (effs (data_handler now data td)) \<and>
        getHeaders (model (data_handler now data td)) \<noteq> [] \<and>
        received (model (data_handler now data td)) = received td \<and>
        state_history (model (data_handler now data td)) = state_history td \<and>
        current_state (model (data_handler now data td)) = current_state td) \<and>
     (getHeaders td \<noteq> [] \<longrightarrow>
        data_handler now data td = parseData now text td \<and>
        headers (model (data_handler now data td)) = headers td \<and>
        received (model (data_handler now data td)) = received td @ [(now, text)] \<and>
        state_history (model (data_handler now data td)) =
          state_history td @ [current_state (model (data_handler now data td))])"
proof -
  obtain str where t: "frame_toString data = Inr str"
    using truthy_frame_text [OF assms] by blast
  have ne: "split_on CHR '','' str \<noteq> []"
    by (simp add: split_on_not_Nil)
  have h: "getHeaders td = [] \<Longrightarrow> ?thesis"
    using t ne
    by (simp add: data_handler_truthy [OF assms t] parseHeaders_def setHeadersFromString_def
        getHeaders_def Let_def)
  have d: "getHeaders td \<noteq> [] \<Longrightarrow> ?thesis"
    using t
    by (simp add: data_handler_truthy [OF assms t] parseData_model
        setCurrentStateFromString_def Let_def getHeaders_def)
  show ?thesis using h d by blast
qed

theorem data_handler_header_or_data_witness:
  "data_handler 5 (FBuffer ''lat, lon'') new_TelemetryData =
     parseHeaders ''lat, lon'' new_TelemetryData \<and>
   headers (model (data_handler 5 (FBuffer ''lat, lon'') new_TelemetryData)) = [''lat'', ''lon''] \<and>
   data_handler 5 (FString ''1,2'') (new_TelemetryData\<lparr>headers := [''lat'', ''lon'']\<rparr>) =
     parseData 5 ''1,2'' (new_TelemetryData\<lparr>headers := [''lat'', ''lon'']\<rparr>) \<and>
   received (model (data_handler 5 (FString ''1,2'')
     (new_TelemetryData\<lparr>headers := [''lat'', ''lon'']\<rparr>))) = [(5, ''1,2'')]"
proof -
  have a: "\<not> falsy (FBuffer ''lat, lon'')" by simp
  have b: "\<not> falsy (FString ''1,2'')" by simp
  show ?thesis
    using data_handler_header_or_data [OF a, of new_TelemetryData 5]
      data_handler_header_or_data [OF b, of "new_TelemetryData\<lparr>headers := [''lat'', ''lon'']\<rparr>" 5]
    by (auto simp: getHeaders_def new_TelemetryData_def trim_def is_ws_def)
qed

text \<open>
  C1. For every data frame with the text \<open>45.5,-80.2,120\<close> received while the Header
  List is \<open>lat\<close>, \<open>lon\<close>, \<open>alt\<close>, whatever the history, the listeners and the clock:
  the handler raises nothing, the snapshot mapping \<open>lat\<close> to 45.5, \<open>lon\<close> to -80.2 and
  \<open>alt\<close> to 120 (each value the text of its column) becomes \<open>current_state\<close>, it is
  appended to \<open>state_history\<close> exactly once, and the pair of the timestamp and the text
  is appended to \<open>received\<close> exactly once; the Header List is unchanged.
\<close>

theorem data_frame_lat_lon_alt:
  assumes "headers td = [''lat'', ''lon'', ''alt'']"
    and "frame_toString data = Inr ''45.5,-80.2,120''"
  shows "exn (data_handler now data td) = None \<and>
    current_state (model (data_handler now data td)) =
      [''lat'' \<mapsto> ''45.5'', ''lon'' \<mapsto> ''-80.2'', ''alt'' \<mapsto> ''120''] \<and>
    state_history (model (data_handler now data td)) =
      state_history td @ [[''lat'' \<mapsto> ''45.5'', ''lon'' \<mapsto> ''-80.2'', ''alt'' \<mapsto> ''120'']] \<and>
    received (model (data_handler now data td)) =
      received td @ [(now, ''45.5,-80.2,120'')] \<and>
    headers (model (data_handler now data td)) = headers td \<and>
    delivered (data_handler now data td) = []"
proof -
  have nf: "\<not> falsy data" using assms(2) by (cases data) auto
  have z: "zip_snapshot [''lat'', ''lon'', ''alt''] (split_on CHR '','' ''45.5,-80.2,120'') =
      [''lat'' \<mapsto> ''45.5'', ''lon'' \<mapsto> ''-80.2'', ''alt'' \<mapsto> ''120'']"
    by (simp add: zip_snapshot_def)
  have "data_handler now data td = parseData now ''45.5,-80.2,120'' td"
    using assms(1) by (simp add: data_handler_truthy [OF nf assms(2)] getHeaders_def)
  then show ?thesis
    using z assms(1) by (simp add: parseData_model setCurrentStateFromString_def Let_def)
qed

theorem data_frame_lat_lon_alt_witness:
  "current_state (model (data_handler 9 (FBuffer ''45.5,-80.2,120'')
      (new_TelemetryData\<lparr>headers := [''lat'', ''lon'', ''alt'']\<rparr>))) =
     [''lat'' \<mapsto> ''45.5'', ''lon'' \<mapsto> ''-80.2'', ''alt'' \<mapsto> ''120''] \<and>
   state_history (model (data_handler 9 (FBuffer ''45.5,-80.2,120'')
      (new_TelemetryData\<lparr>headers := [''lat'', ''lon'', ''alt'']\<rparr>))) =
     [[''lat'' \<mapsto> ''45.5'', ''lon'' \<mapsto> ''-80.2'', ''alt'' \<mapsto> ''120'']] \<and>
   received (model (data_handler 9 (FBuffer ''45.5,-80.2,120'')
      (new_TelemetryData\<lparr>headers := [''lat'', ''lon'', ''alt'']\<rparr>))) =
     [(9, ''45.5,-80.2,120'')]"
proof -
  have h: "headers (new_TelemetryData\<lparr>headers := [''lat'', ''lon'', ''alt'']\<rparr>) =
      [''lat'', ''lon'', ''alt'']" by simp
  have f: "frame_toString (FBuffer ''45.5,-80.2,120'') = Inr ''45.5,-80.2,120''" by simp
  show ?thesis
    using data_frame_lat_lon_alt [OF h f, of 9] by (simp add: new_TelemetryData_def)
qed

section \<open>Dispatch of the packets\<close>

lemma emitPackets_nonempty:
  "emitPackets self (Some ((n, d) # rest)) dl = (Some TypeError, dl)"
  by (simp add: emitPackets_def each_def this_of_def)

lemma call_listeners_throw:
  "list_all (\<lambda>x. \<not> throws x d) ls1 \<Longrightarrow> throws l d \<Longrightarrow>
   call_listeners (ls1 @ l # ls2) n d dl =
     (Some (Thrown (lid l)), dl @ map (\<lambda>x. (lid x, n, d)) (ls1 @ [l]))"
  by (induction ls1 arbitrary: dl) auto

lemma each_keys_abort:
  "each_keys pre f dl = (None, dl1) \<Longrightarrow> f d n dl1 = (Some e, dl2) \<Longrightarrow>
   each_keys (pre @ (n, d) # post) f dl = (Some e, dl2)"
proof (induction pre arbitrary: dl)
  case Nil
  then show ?case by simp
next
  case (Cons kv pre)
  obtain k v where kv: "kv = (k, v)" by (cases kv)
  show ?case
  proof (cases "f v k dl")
    case (Pair r dl')
    show ?thesis
    proof (cases r)
      case None
      with Cons Pair kv show ?thesis by simp
    next
      case (Some a)
      with Cons.prems Pair kv show ?thesis by simp
    qed
  qed
qed

text \<open>
  C3. The call \<open>emitPackets\<close> of the mapping with the one category
  \<open>aircraft_position\<close> and the payload \<open>p: 1\<close>, with one listener registered for that
  category, raises a TypeError and delivers nothing: the callback is called plainly, so
  its receiver is not the emitter. The same iteration with the emitter as the context
  of \<open>each\<close> delivers the payload to the listener once.
\<close>

theorem emitPackets_raises_TypeError:
  "listeners_of (on ''aircraft_position'' \<lparr>lid = 1, throws = (\<lambda>p. False)\<rparr> new_TelemetryData)
     ''aircraft_position'' = [\<lparr>lid = 1, throws = (\<lambda>p. False)\<rparr>] \<and>
   emitPackets (on ''aircraft_position'' \<lparr>lid = 1, throws = (\<lambda>p. False)\<rparr> new_TelemetryData)
     (Some [(''aircraft_position'', [''p'' \<mapsto> ''1''])]) [] = (Some TypeError, []) \<and>
   each (Some [(''aircraft_position'', [''p'' \<mapsto> ''1''])]) packet_callback
     (Some (ObjectThis
        (on ''aircraft_position'' \<lparr>lid = 1, throws = (\<lambda>p. False)\<rparr> new_TelemetryData))) [] =
     (None, [(1, ''aircraft_position'', [''p'' \<mapsto> ''1''])])"
  by (simp add: emitPackets_nonempty each_def this_of_def emit_def listeners_of_def on_def
      new_TelemetryData_def)

text \<open>
  C4, as amended. Dispatch has no isolation of failures. In the iteration of \<open>each\<close>
  over the categories, whatever the receiver: when the categories before one were
  dispatched without an exception and the dispatch of that one raises an exception, the
  whole call ends with that exception and with the deliveries made so far, so no later
  category is dispatched. In \<open>emit\<close>: when a listener throws and those registered before
  it did not, the listeners before it and the thrower itself are the only ones called,
  and the exception leaves \<open>emit\<close>; the listeners after it receive nothing.
\<close>

theorem dispatch_stops_at_first_exception:
  "(each (Some pre) packet_callback context dl = (None, dl1) \<longrightarrow>
    packet_callback (this_of context) d n dl1 = (Some e, dl2) \<longrightarrow>
    each (Some (pre @ (n, d) # post)) packet_callback context dl = (Some e, dl2)) \<and>
   (listeners_of self n = ls1 @ l # ls2 \<longrightarrow> list_all (\<lambda>x. \<not> throws x d) ls1 \<longrightarrow>
    throws l d \<longrightarrow>
    emit self n d dl = (Some (Thrown (lid l)), dl @ map (\<lambda>x. (lid x, n, d)) (ls1 @ [l])))"
  by (auto simp: each_def each_keys_abort emit_def call_listeners_throw)

lemma listeners_position: "listeners_of two_listeners ''aircraft_position'' = [faulty, sound]"
  by (simp add: two_listeners_def listeners_of_def on_def new_TelemetryData_def)

theorem dispatch_stops_at_first_exception_witness:
  "emit two_listeners ''aircraft_position'' [''p'' \<mapsto> ''1''] [] =
     (Some (Thrown 1), [(1, ''aircraft_position'', [''p'' \<mapsto> ''1''])]) \<and>
   each (Some [(''aircraft_position'', [''p'' \<mapsto> ''1'']), (''aircraft_status'', [''q'' \<mapsto> ''2''])])
     packet_callback (Some (ObjectThis two_listeners)) [] =
     (Some (Thrown 1), [(1, ''aircraft_position'', [''p'' \<mapsto> ''1''])])"
proof -
  have e: "emit two_listeners ''aircraft_position'' [''p'' \<mapsto> ''1''] [] =
     (Some (Thrown 1), [(1, ''aircraft_position'', [''p'' \<mapsto> ''1''])])"
    using dispatch_stops_at_first_exception
      [of "[]" "Some (ObjectThis two_listeners)" "[]" "[]" "[''p'' \<mapsto> ''1'']"
          "''aircraft_position''" "Thrown 1" "[(1, ''aircraft_position'', [''p'' \<mapsto> ''1''])]"
          "[(''aircraft_status'', [''q'' \<mapsto> ''2''])]" two_listeners "[]" faulty "[sound]"]
      listeners_position
    by (simp add: faulty_def)
  have "each (Some [(''aircraft_position'', [''p'' \<mapsto> ''1'']), (''aircraft_status'', [''q'' \<mapsto> ''2''])])
     packet_callback (Some (ObjectThis two_listeners)) [] =
     (Some (Thrown 1), [(1, ''aircraft_position'', [''p'' \<mapsto> ''1''])])"
    using dispatch_stops_at_first_exception
      [of "[]" "Some (ObjectThis two_listeners)" "[]" "[]" "[''p'' \<mapsto> ''1'']"
          "''aircraft_position''" "Thrown 1" "[(1, ''aircraft_position'', [''p'' \<mapsto> ''1''])]"
          "[(''aircraft_status'', [''q'' \<mapsto> ''2''])]" two_listeners "[]" faulty "[sound]"]
      e
    by (simp add: each_def this_of_def)
  with e show ?thesis by simp
qed

text \<open>
  With the throwing listener registered before the other one for the position category:
  \<open>emit\<close> ends with the first listener's exception and the second listener receives
  nothing; \<open>emitPackets\<close> of a position and a status payload delivers neither to it.
\<close>

theorem listener_isolation_counterexample:
  "listeners_of two_listeners ''aircraft_position'' = [faulty, sound] \<and>
   throws faulty [''p'' \<mapsto> ''1''] \<and>
   fst (emit two_listeners ''aircraft_position'' [''p'' \<mapsto> ''1''] []) = Some (Thrown (lid faulty)) \<and>
   (lid sound, ''aircraft_position'', [''p'' \<mapsto> ''1''])
     \<notin> set (snd (emit two_listeners ''aircraft_position'' [''p'' \<mapsto> ''1''] [])) \<and>
   (lid sound, ''aircraft_position'', [''p'' \<mapsto> ''1''])
     \<notin> set (snd (emitPackets two_listeners
         (Some [(''aircraft_position'', [''p'' \<mapsto> ''1'']), (''aircraft_status'', [''q'' \<mapsto> ''2''])]) [])) \<and>
   (lid sound, ''aircraft_status'', [''q'' \<mapsto> ''2''])
     \<notin> set (snd (emitPackets two_listeners
         (Some [(''aircraft_position'', [''p'' \<mapsto> ''1'']), (''aircraft_status'', [''q'' \<mapsto> ''2''])]) []))"
  by (simp add: listeners_position emit_def emitPackets_nonempty) (simp add: faulty_def sound_def)

section \<open>Discovery\<close>

lemma isV4Format_starts_with_digit: "isV4Format s \<Longrightarrow> \<exists>x xs. s = x # xs \<and> is_digit x"
proof (cases s)
  case Nil
  then show "isV4Format s \<Longrightarrow> ?thesis" by (simp add: isV4Format_def)
next
  case (Cons x xs)
  assume v: "isV4Format s"
  obtain t ts where ts: "split_on CHR ''.'' xs = t # ts"
    using split_on_not_Nil [of "CHR ''.''" xs] by (cases "split_on CHR ''.'' xs") auto
  have "x \<noteq> CHR ''.''"
    using v Cons by (auto simp: isV4Format_def Let_def)
  then have "is_digit x"
    using v Cons ts by (simp add: isV4Format_def Let_def)
  with Cons show ?thesis by simp
qed

lemma subnet_mask_at_label: "subnet_mask_at s = Some m \<Longrightarrow> \<exists>r. m = CHR ''S'' # r"
  by (auto simp: subnet_mask_at_def Let_def split: if_splits option.splits)

lemma bcast_at_label: "bcast_at s = Some m \<Longrightarrow> \<exists>r. m = CHR ''B'' # r \<or> m = CHR ''b'' # r"
  by (auto simp: bcast_at_def split: if_splits)

lemma subnet_mask_at_not_v4: "subnet_mask_at s = Some m \<Longrightarrow> \<not> isV4Format m"
  using subnet_mask_at_label [of s m] isV4Format_starts_with_digit [of m]
  by (auto simp: is_digit_def)

lemma bcast_at_not_v4: "bcast_at s = Some m \<Longrightarrow> \<not> isV4Format m"
  using bcast_at_label [of s m] isV4Format_starts_with_digit [of m]
  by (auto simp: is_digit_def)

lemma match_subnet_mask_not_v4: "list_all (\<lambda>m. \<not> isV4Format m) (match_subnet_mask s)"
proof (induction s rule: match_subnet_mask.induct)
  case (1 s)
  show ?case
  proof (cases "s = []")
    case True
    then show ?thesis by (subst match_subnet_mask.simps) simp
  next
    case False
    show ?thesis
    proof (cases "subnet_mask_at s")
      case None
      have "list_all (\<lambda>m. \<not> isV4Format m) (match_subnet_mask (tl s))"
        using "1.IH"(1) [OF False None] .
      then show ?thesis
        by (subst match_subnet_mask.simps) (simp add: False None)
    next
      case (Some m)
      have "list_all (\<lambda>m. \<not> isV4Format m) (match_subnet_mask (drop (length m) s))"
        using "1.IH"(2) [OF False Some] .
      then show ?thesis
        using subnet_mask_at_not_v4 [OF Some]
        by (subst match_subnet_mask.simps) (simp add: False Some)
    qed
  qed
qed

lemma match_bcast_not_v4: "list_all (\<lambda>m. \<not> isV4Format m) (match_bcast s)"
proof (induction s rule: match_bcast.induct)
  case (1 s)
  show ?case
  proof (cases "s = []")
    case True
    then show ?thesis by (subst match_bcast.simps) simp
  next
    case False
    show ?thesis
    proof (cases "bcast_at s")
      case None
      have "list_all (\<lambda>m. \<not> isV4Format m) (match_bcast (tl s))"
        using "1.IH"(1) [OF False None] .
      then show ?thesis
        by (subst match_bcast.simps) (simp add: False None)
    next
      case (Some m)
      have "list_all (\<lambda>m. \<not> isV4Format m) (match_bcast (drop (length m) s))"
        using "1.IH"(2) [OF False Some] .
      then show ?thesis
        using bcast_at_not_v4 [OF Some]
        by (subst match_bcast.simps) (simp add: False Some)
    qed
  qed
qed

lemma connect_matches_windows_none:
  "list_all (\<lambda>m. \<not> isV4Format m) ms \<Longrightarrow> connect_matches_windows localIP ms = (None, [])"
  by (induction ms) auto

lemma connect_matches_linux_none:
  "list_all (\<lambda>m. \<not> isV4Format m) ms \<Longrightarrow> connect_matches_linux ms = (None, [])"
  by (induction ms) auto

lemma findUDP_never_connects: "snd (findUDP os res localIP) = []"
  by (cases res)
     (simp_all add: findUDP_def connect_matches_windows_none connect_matches_linux_none
        match_subnet_mask_not_v4 match_bcast_not_v4)

lemma findUDP_windows_example:
  "match_subnet_mask
     ''   IPv4 Address. . . . . . . . . . . : 192.168.1.10\<newline>   Subnet Mask . . . . . . . . . . . : 255.255.255.0\<newline>'' =
     [''Subnet Mask . . . . . . . . . . . : 255.255.255.0'']"
  by (simp add: match_subnet_mask.simps subnet_mask_at_def is_line_terminator_def
      digit_or_dot_def is_digit_def)

lemma findUDP_linux_example:
  "match_bcast ''inet addr:192.168.1.10  Bcast:192.168.1.255  Mask:255.255.255.0\<newline>'' =
     [''Bcast:192.168.1.255'']"
  by (simp add: match_bcast.simps bcast_at_def digit_or_dot_def is_digit_def)

lemma ip_example:
  "ip_not ''255.255.255.0'' = Inr ''0.0.0.255'' \<and>
   ip_or ''0.0.0.255'' ''192.168.1.10'' = Inr ''192.168.1.255''"
  by (simp add: ip_not_def ip_or_def toBuffer_def isV4Format_def is_digit_def parseInt10_def
      digit_val_def ip_toString_def byte_string_def digit_char_def)

text \<open>
  C5. On Windows, with an \<^verbatim>\<open>ipconfig\<close> output that reports the subnet mask
  255.255.255.0 and the local address 192.168.1.10, the global match returns the whole
  matched text, label included; \<open>isV4Format\<close> rejects it, so \<open>findUDP\<close> makes no
  discovery attempt at all, where the bitwise OR of the bitwise NOT of the mask with the
  local address is 192.168.1.255. On Linux, with an \<^verbatim>\<open>ifconfig\<close> output that reports
  the broadcast address 192.168.1.255, the match is likewise rejected and no attempt is
  made.
\<close>

theorem findUDP_makes_no_attempt:
  "match_subnet_mask
     ''   IPv4 Address. . . . . . . . . . . : 192.168.1.10\<newline>   Subnet Mask . . . . . . . . . . . : 255.255.255.0\<newline>'' =
     [''Subnet Mask . . . . . . . . . . . : 255.255.255.0''] \<and>
   \<not> isV4Format ''Subnet Mask . . . . . . . . . . . : 255.255.255.0'' \<and>
   findUDP ''win32''
     (ExecOk ''   IPv4 Address. . . . . . . . . . . : 192.168.1.10\<newline>   Subnet Mask . . . . . . . . . . . : 255.255.255.0\<newline>'')
     ''192.168.1.10'' = (None, []) \<and>
   ip_not ''255.255.255.0'' = Inr ''0.0.0.255'' \<and>
   ip_or ''0.0.0.255'' ''192.168.1.10'' = Inr ''192.168.1.255'' \<and>
   match_bcast ''inet addr:192.168.1.10  Bcast:192.168.1.255  Mask:255.255.255.0\<newline>'' =
     [''Bcast:192.168.1.255''] \<and>
   \<not> isV4Format ''Bcast:192.168.1.255'' \<and>
   findUDP ''linux''
     (ExecOk ''inet addr:192.168.1.10  Bcast:192.168.1.255  Mask:255.255.255.0\<newline>'')
     ''192.168.1.10'' = (None, [])"
proof -
  have w: "\<not> isV4Format ''Subnet Mask . . . . . . . . . . . : 255.255.255.0''"
    by (simp add: isV4Format_def is_digit_def)
  have l: "\<not> isV4Format ''Bcast:192.168.1.255''"
    by (simp add: isV4Format_def is_digit_def)
  show ?thesis
    using w l
    by (simp add: findUDP_windows_example findUDP_linux_example ip_example findUDP_def)
qed

section \<open>The discovery timeout\<close>





end
